theory Spec2Isabelle
  imports Main
begin

section \<open>The live-migration scheduler of nova/scheduler/driver.py\<close>

text \<open>
  The module is one class, \<^verbatim>\<open>Scheduler\<close>, whose methods talk to three collaborators
  that live outside the module: the repository (\<^verbatim>\<open>nova.db\<close>), the remote-procedure
  layer (\<^verbatim>\<open>nova.rpc\<close>) and the wall clock (\<^verbatim>\<open>datetime.datetime.utcnow\<close>).
  The collaborators are parameters of the model (the record \<open>env\<close>); what the methods
  do to them is threaded through explicitly as a \<open>world\<close>: how often the clock has been
  read, and the sequence of remote calls and repository writes issued so far.
  Every \<^verbatim>\<open>raise\<close> is a left injection of the result.
\<close>

subsection \<open>Exceptions\<close>

text \<open>
  Only the class of an exception is kept, not its message.
  \<open>NotFound\<close>, \<open>Invalid\<close> and \<open>NotEmpty\<close> are the classes of \<^verbatim>\<open>nova.exception\<close>,
  \<open>RemoteError\<close> is \<^verbatim>\<open>rpc.RemoteError\<close>, \<open>IndexError\<close> and \<open>NameError\<close> are
  Python's own, and \<open>OtherError\<close> stands for any other class a collaborator may raise.
\<close>

datatype exn =
    NotFound
  | Invalid
  | NotEmpty
  | RemoteError
  | IndexError
  | NameError
  | OtherError string

subsection \<open>Records of the repository\<close>

text \<open>
  Modelled from the spec: the constants of \<^verbatim>\<open>nova.compute.power_state\<close>, which the
  module imports; the spec names these four.
\<close>

datatype power_state = RUNNING | PAUSED | SUSPENDED | SHUTDOWN

text \<open>
  A \<^verbatim>\<open>datetime\<close> is a number of microseconds since the epoch and a \<^verbatim>\<open>timedelta\<close> a
  number of microseconds; \<^verbatim>\<open>datetime.timedelta(seconds=n)\<close> is \<open>timedelta_seconds n\<close>.
\<close>

type_synonym datetime = int
type_synonym timedelta = int

definition timedelta_seconds :: "int \<Rightarrow> timedelta" where
  "timedelta_seconds n = n * 1000000"

text \<open>The row of \<^verbatim>\<open>compute_service\<close> that a compute service carries.\<close>

record compute_node =
  memory_mb :: int
  memory_mb_used :: int
  hypervisor_type :: string
  hypervisor_version :: int
  cpu_info :: string

text \<open>
  A service: \<^verbatim>\<open>service['updated_at']\<close> is \<^verbatim>\<open>None\<close> until the first heartbeat;
  \<^verbatim>\<open>service['compute_service']\<close> is a list, indexed with \<^verbatim>\<open>[0]\<close> by the module.
\<close>

record service =
  service_host :: string
  created_at :: datetime
  updated_at :: "datetime option"
  compute_service :: "compute_node list"

record volume =
  volume_id :: int

text \<open>
  An instance: \<open>instance_host\<close> is \<^verbatim>\<open>instance_ref['host']\<close> and \<open>instance_memory_mb\<close>
  is \<^verbatim>\<open>instance_ref['memory_mb']\<close>.
\<close>

record instance_row =
  hostname :: string
  state :: power_state
  state_description :: string
  instance_host :: string
  launched_on :: string
  instance_memory_mb :: int
  volumes :: "volume list"

subsection \<open>Remote calls and the world\<close>

text \<open>A value sent to or received from \<^verbatim>\<open>rpc.call\<close>: a string, a dictionary, or nothing.\<close>

datatype rpc_value =
    Str string
  | Dict "(string \<times> rpc_value) list"
  | NoValue

datatype event =
    RpcCall string rpc_value
  | DbInstanceSetState int power_state string
  | DbVolumeUpdate int "(string \<times> string) list"

record world =
  clock_reads :: nat
  events :: "event list"

text \<open>
  The collaborators. \<open>utcnow k\<close> is what the clock shows at its \<open>k\<close>-th reading.
  A write answers \<open>None\<close> when it returns and \<open>Some e\<close> when it raises \<open>e\<close>.
\<close>

record env =
  service_down_time :: int
  compute_topic :: string
  utcnow :: "nat \<Rightarrow> datetime"
  db_instance_get :: "int \<Rightarrow> exn + instance_row"
  db_service_get_all_by_topic :: "string \<Rightarrow> service list"
  db_service_get_all_compute_by_host :: "string \<Rightarrow> exn + service list"
  db_queue_get_for :: "string \<Rightarrow> string \<Rightarrow> string"
  db_instance_set_state :: "int \<Rightarrow> power_state \<Rightarrow> string \<Rightarrow> exn option"
  db_volume_update :: "int \<Rightarrow> (string \<times> string) list \<Rightarrow> exn option"
  rpc_reply :: "string \<Rightarrow> rpc_value \<Rightarrow> exn + rpc_value"

definition rpc_call :: "env \<Rightarrow> world \<Rightarrow> string \<Rightarrow> rpc_value \<Rightarrow> (exn + rpc_value) \<times> world" where
  "rpc_call e w queue msg =
     (rpc_reply e queue msg, w\<lparr>events := events w @ [RpcCall queue msg]\<rparr>)"

definition instance_set_state ::
  "env \<Rightarrow> world \<Rightarrow> int \<Rightarrow> power_state \<Rightarrow> string \<Rightarrow> (exn + unit) \<times> world" where
  "instance_set_state e w instance_id st description =
     (case db_instance_set_state e instance_id st description of
        Some x \<Rightarrow> Inl x
      | None \<Rightarrow> Inr (),
      w\<lparr>events := events w @ [DbInstanceSetState instance_id st description]\<rparr>)"

definition volume_update ::
  "env \<Rightarrow> world \<Rightarrow> int \<Rightarrow> (string \<times> string) list \<Rightarrow> (exn + unit) \<times> world" where
  "volume_update e w vid values' =
     (case db_volume_update e vid values' of
        Some x \<Rightarrow> Inl x
      | None \<Rightarrow> Inr (),
      w\<lparr>events := events w @ [DbVolumeUpdate vid values']\<rparr>)"

text \<open>The two kinds of event, read off a trace.\<close>

fun is_rpc :: "event \<Rightarrow> bool" where
  "is_rpc (RpcCall q m) = True"
| "is_rpc (DbInstanceSetState i s d) = False"
| "is_rpc (DbVolumeUpdate i v) = False"

fun is_write :: "event \<Rightarrow> bool" where
  "is_write (RpcCall q m) = False"
| "is_write (DbInstanceSetState i s d) = True"
| "is_write (DbVolumeUpdate i v) = True"

definition rpc_calls :: "world \<Rightarrow> event list" where
  "rpc_calls w = filter is_rpc (events w)"

definition db_writes :: "world \<Rightarrow> event list" where
  "db_writes w = filter is_write (events w)"

text \<open>Python's \<^verbatim>\<open>xs[0]\<close>: the first element, or \<^verbatim>\<open>IndexError\<close> on an empty list.\<close>

definition first :: "'a list \<Rightarrow> exn + 'a" where
  "first xs = (case xs of [] \<Rightarrow> Inl IndexError | x # _ \<Rightarrow> Inr x)"

subsection \<open>\<^verbatim>\<open>Scheduler.service_is_up\<close>\<close>

text \<open>
  \<^verbatim>\<open>last_heartbeat = service['updated_at'] or service['created_at']\<close>: a \<^verbatim>\<open>datetime\<close> is
  always true, so \<^verbatim>\<open>or\<close> takes \<^verbatim>\<open>created_at\<close> exactly when \<^verbatim>\<open>updated_at\<close> is \<^verbatim>\<open>None\<close>.
  \<open>service_is_up_at\<close> is the body of the method for a given reading \<open>now\<close> of the clock
  and a given value of the flag; \<open>service_is_up\<close> reads the clock.
\<close>

definition last_heartbeat :: "service \<Rightarrow> datetime" where
  "last_heartbeat s = (case updated_at s of Some u \<Rightarrow> u | None \<Rightarrow> created_at s)"

definition service_is_up_at :: "int \<Rightarrow> datetime \<Rightarrow> service \<Rightarrow> bool" where
  "service_is_up_at down_time now s =
     (let elapsed = now - last_heartbeat s
      in elapsed < timedelta_seconds down_time)"

definition service_is_up :: "env \<Rightarrow> world \<Rightarrow> service \<Rightarrow> bool \<times> world" where
  "service_is_up e w s =
     (service_is_up_at (service_down_time e) (utcnow e (clock_reads w)) s,
      w\<lparr>clock_reads := Suc (clock_reads w)\<rparr>)"

subsection \<open>\<^verbatim>\<open>Scheduler.hosts_up\<close>\<close>

text \<open>The list comprehension, one clock reading for each service it tests.\<close>

fun hosts_up_loop :: "env \<Rightarrow> world \<Rightarrow> service list \<Rightarrow> string list \<times> world" where
  "hosts_up_loop e w [] = ([], w)"
| "hosts_up_loop e w (s # ss) =
     (case service_is_up e w s of
        (up, w1) \<Rightarrow>
          (case hosts_up_loop e w1 ss of
             (hs, w2) \<Rightarrow> (if up then service_host s # hs else hs, w2)))"

definition hosts_up :: "env \<Rightarrow> world \<Rightarrow> string \<Rightarrow> string list \<times> world" where
  "hosts_up e w topic =
     (let services = db_service_get_all_by_topic e topic
      in hosts_up_loop e w services)"

subsection \<open>\<^verbatim>\<open>Scheduler.has_enough_resources\<close>\<close>

definition has_enough_resources :: "env \<Rightarrow> instance_row \<Rightarrow> string \<Rightarrow> exn + unit" where
  "has_enough_resources e instance_ref dest =
     (case db_service_get_all_compute_by_host e dest of
        Inl x \<Rightarrow> Inl x
      | Inr service_refs \<Rightarrow>
          (case first service_refs of
             Inl x \<Rightarrow> Inl x
           | Inr service_ref \<Rightarrow>
               (case first (compute_service service_ref) of
                  Inl x \<Rightarrow> Inl x
                | Inr compute_service_ref \<Rightarrow>
                    (let mem_total = memory_mb compute_service_ref;
                         mem_used = memory_mb_used compute_service_ref;
                         mem_avail = mem_total - mem_used;
                         mem_inst = instance_memory_mb instance_ref
                     in if mem_avail \<le> mem_inst then Inl NotEmpty else Inr ()))))"

subsection \<open>\<^verbatim>\<open>Scheduler.mounted_on_same_shared_storage\<close>\<close>

text \<open>
  The handler of the first \<^verbatim>\<open>try\<close> evaluates \<^verbatim>\<open>LOG.error\<close>, and the module binds no name
  \<^verbatim>\<open>LOG\<close> (it imports \<^verbatim>\<open>nova.log\<close> as \<^verbatim>\<open>logging\<close>, which the second handler uses): a
  \<^verbatim>\<open>RemoteError\<close> of \<^verbatim>\<open>mktmpfile\<close> reaches the caller as a \<^verbatim>\<open>NameError\<close>. Any other
  exception passes the handler by. The second handler logs and re-raises what it caught.
\<close>

definition mounted_on_same_shared_storage ::
  "env \<Rightarrow> world \<Rightarrow> instance_row \<Rightarrow> string \<Rightarrow> (exn + unit) \<times> world" where
  "mounted_on_same_shared_storage e w instance_ref dest =
     (let src = instance_host instance_ref;
          dst_t = db_queue_get_for e (compute_topic e) dest;
          src_t = db_queue_get_for e (compute_topic e) src
      in case rpc_call e w dst_t (Dict [(''method'', Str ''mktmpfile'')]) of
           (Inl x, w1) \<Rightarrow> (if x = RemoteError then Inl NameError else Inl x, w1)
         | (Inr filename, w1) \<Rightarrow>
             (case rpc_call e w1 src_t
                     (Dict [(''method'', Str ''confirm_tmpfile''),
                            (''args'', Dict [(''path'', filename)])]) of
                (Inl x, w2) \<Rightarrow> (Inl x, w2)
              | (Inr _, w2) \<Rightarrow> (Inr (), w2)))"

subsection \<open>\<^verbatim>\<open>Scheduler._live_migration_src_check\<close>\<close>

definition live_migration_src_check ::
  "env \<Rightarrow> world \<Rightarrow> instance_row \<Rightarrow> (exn + unit) \<times> world" where
  "live_migration_src_check e w instance_ref =
     (if RUNNING \<noteq> state instance_ref \<or> ''running'' \<noteq> state_description instance_ref
      then (Inl Invalid, w)
      else
        (case (if length (volumes instance_ref) \<noteq> 0
               then (let services = db_service_get_all_by_topic e ''volume''
                     in case services of
                          [] \<Rightarrow> (Inl Invalid, w)
                        | s # _ \<Rightarrow>
                            (case service_is_up e w s of
                               (up, w1) \<Rightarrow> (if \<not> up then Inl Invalid else Inr (), w1)))
               else (Inr (), w)) of
           (Inl x, w1) \<Rightarrow> (Inl x, w1)
         | (Inr _, w1) \<Rightarrow>
             (let src = instance_host instance_ref
              in case db_service_get_all_compute_by_host e src of
                   Inl x \<Rightarrow> (Inl x, w1)
                 | Inr services \<Rightarrow>
                     (case first services of
                        Inl x \<Rightarrow> (Inl x, w1)
                      | Inr s \<Rightarrow>
                          (case service_is_up e w1 s of
                             (up, w2) \<Rightarrow> (if \<not> up then Inl Invalid else Inr (), w2))))))"

subsection \<open>\<^verbatim>\<open>Scheduler._live_migration_dest_check\<close>\<close>

definition live_migration_dest_check ::
  "env \<Rightarrow> world \<Rightarrow> instance_row \<Rightarrow> string \<Rightarrow> (exn + unit) \<times> world" where
  "live_migration_dest_check e w instance_ref dest =
     (case db_service_get_all_compute_by_host e dest of
        Inl x \<Rightarrow> (Inl x, w)
      | Inr dservice_refs \<Rightarrow>
          (case first dservice_refs of
             Inl x \<Rightarrow> (Inl x, w)
           | Inr dservice_ref \<Rightarrow>
               (case service_is_up e w dservice_ref of
                  (up, w1) \<Rightarrow>
                    (if \<not> up then (Inl Invalid, w1)
                     else
                       (let src = instance_host instance_ref
                        in if dest = src then (Inl Invalid, w1)
                           else (has_enough_resources e instance_ref dest, w1))))))"

subsection \<open>\<^verbatim>\<open>Scheduler._live_migration_common_check\<close>\<close>

text \<open>
  The hypervisor and CPU steps that follow the storage probe. The value \<^verbatim>\<open>compare_cpu\<close>
  returns is not looked at; the handler of \<^verbatim>\<open>rpc.RemoteError\<close> logs and re-raises.
\<close>

definition live_migration_common_check ::
  "env \<Rightarrow> world \<Rightarrow> instance_row \<Rightarrow> string \<Rightarrow> (exn + unit) \<times> world" where
  "live_migration_common_check e w instance_ref dest =
     (case mounted_on_same_shared_storage e w instance_ref dest of
        (Inl x, w1) \<Rightarrow> (Inl x, w1)
      | (Inr _, w1) \<Rightarrow>
          (case db_service_get_all_compute_by_host e dest of
             Inl x \<Rightarrow> (Inl x, w1)
           | Inr dservice_refs \<Rightarrow>
          (case first dservice_refs of
             Inl x \<Rightarrow> (Inl x, w1)
           | Inr dservice \<Rightarrow>
          (case first (compute_service dservice) of
             Inl x \<Rightarrow> (Inl x, w1)
           | Inr dservice_ref \<Rightarrow>
          (case db_service_get_all_compute_by_host e (launched_on instance_ref) of
             Inl x \<Rightarrow> (if x = NotFound then Inl Invalid else Inl x, w1)
           | Inr oservice_refs \<Rightarrow>
          (case first oservice_refs of
             Inl x \<Rightarrow> (Inl x, w1)
           | Inr oservice \<Rightarrow>
          (case first (compute_service oservice) of
             Inl x \<Rightarrow> (Inl x, w1)
           | Inr oservice_ref \<Rightarrow>
               (if hypervisor_type oservice_ref \<noteq> hypervisor_type dservice_ref
                then (Inl Invalid, w1)
                else if hypervisor_version oservice_ref > hypervisor_version dservice_ref
                then (Inl Invalid, w1)
                else
                  (case rpc_call e w1 (db_queue_get_for e (compute_topic e) dest)
                          (Dict [(''method'', Str ''compare_cpu''),
                                 (''args'', Dict [(''cpu_info'', Str (cpu_info oservice_ref))])]) of
                     (Inl x, w2) \<Rightarrow> (Inl x, w2)
                   | (Inr _, w2) \<Rightarrow> (Inr (), w2))))))))))"

subsection \<open>\<^verbatim>\<open>Scheduler.schedule_live_migration\<close>\<close>

text \<open>The loop over \<^verbatim>\<open>instance_ref['volumes']\<close>; it stops at the first write that raises.\<close>

fun update_volumes :: "env \<Rightarrow> world \<Rightarrow> volume list \<Rightarrow> (exn + unit) \<times> world" where
  "update_volumes e w [] = (Inr (), w)"
| "update_volumes e w (v # vs) =
     (case volume_update e w (volume_id v) [(''status'', ''migrating'')] of
        (Inl x, w1) \<Rightarrow> (Inl x, w1)
      | (Inr _, w1) \<Rightarrow> update_volumes e w1 vs)"

definition schedule_live_migration ::
  "env \<Rightarrow> world \<Rightarrow> int \<Rightarrow> string \<Rightarrow> (exn + string) \<times> world" where
  "schedule_live_migration e w instance_id dest =
     (case db_instance_get e instance_id of
        Inl x \<Rightarrow> (Inl x, w)
      | Inr instance_ref \<Rightarrow>
     (case live_migration_src_check e w instance_ref of
        (Inl x, w1) \<Rightarrow> (Inl x, w1)
      | (Inr _, w1) \<Rightarrow>
     (case live_migration_dest_check e w1 instance_ref dest of
        (Inl x, w2) \<Rightarrow> (Inl x, w2)
      | (Inr _, w2) \<Rightarrow>
     (case live_migration_common_check e w2 instance_ref dest of
        (Inl x, w3) \<Rightarrow> (Inl x, w3)
      | (Inr _, w3) \<Rightarrow>
     (case instance_set_state e w3 instance_id PAUSED ''migrating'' of
        (Inl x, w4) \<Rightarrow> (Inl x, w4)
      | (Inr _, w4) \<Rightarrow>
     (case update_volumes e w4 (volumes instance_ref) of
        (Inl x, w5) \<Rightarrow> (Inl x, w5)
      | (Inr _, w5) \<Rightarrow>
          (let src = instance_host instance_ref
           in (Inr src, w5))))))))"

subsection \<open>Liveness as the specification words it\<close>

text \<open>
  The specification's data model derives liveness from the later of the two timestamps:
  \<^verbatim>\<open>now - max(updated_at, created_at) < threshold\<close>. This definition follows those
  words, to be compared with \<open>service_is_up\<close>; an absent \<^verbatim>\<open>updated_at\<close> leaves
  \<^verbatim>\<open>created_at\<close> as the later one.
\<close>

definition later_timestamp :: "service \<Rightarrow> datetime" where
  "later_timestamp s = (case updated_at s of Some u \<Rightarrow> max u (created_at s) | None \<Rightarrow> created_at s)"

definition liveness_by_later_timestamp :: "int \<Rightarrow> datetime \<Rightarrow> service \<Rightarrow> bool" where
  "liveness_by_later_timestamp threshold now s =
     (now - later_timestamp s < timedelta_seconds threshold)"

subsection \<open>A small fleet\<close>

text \<open>
  Two compute hosts \<open>A\<close> and \<open>B\<close> with the same hypervisor, an instance running on \<open>A\<close>,
  a clock that shows second 1000 and advances by a microsecond at each reading, and
  agents that answer every remote call. The variations below change one thing each.
\<close>

definition node_A :: compute_node where
  "node_A = \<lparr>memory_mb = 4096, memory_mb_used = 1024, hypervisor_type = ''kvm'',
             hypervisor_version = 12, cpu_info = ''cpu-a''\<rparr>"

definition node_B :: compute_node where
  "node_B = \<lparr>memory_mb = 2048, memory_mb_used = 1024, hypervisor_type = ''kvm'',
             hypervisor_version = 12, cpu_info = ''cpu-b''\<rparr>"

definition node_C :: compute_node where
  "node_C = \<lparr>memory_mb = 2048, memory_mb_used = 0, hypervisor_type = ''xen'',
             hypervisor_version = 40, cpu_info = ''cpu-c''\<rparr>"

definition svc_A :: service where
  "svc_A = \<lparr>service_host = ''A'', created_at = 0,
            updated_at = Some (timedelta_seconds 990), compute_service = [node_A]\<rparr>"

definition svc_B :: service where
  "svc_B = \<lparr>service_host = ''B'', created_at = timedelta_seconds 995,
            updated_at = None, compute_service = [node_B]\<rparr>"

definition svc_C :: service where
  "svc_C = \<lparr>service_host = ''C'', created_at = 0,
            updated_at = Some (timedelta_seconds 999), compute_service = [node_C]\<rparr>"

definition svc_stale :: service where
  "svc_stale = \<lparr>service_host = ''V'', created_at = 0,
            updated_at = Some (timedelta_seconds 100), compute_service = []\<rparr>"

definition inst_W :: instance_row where
  "inst_W = \<lparr>hostname = ''i-00000001'', state = RUNNING, state_description = ''running'',
             instance_host = ''A'', launched_on = ''A'', instance_memory_mb = 512,
             volumes = []\<rparr>"

definition mktmpfile_msg :: rpc_value where
  "mktmpfile_msg = Dict [(''method'', Str ''mktmpfile'')]"

definition fleet :: env where
  "fleet = \<lparr>service_down_time = 60,
            compute_topic = ''compute'',
            utcnow = (\<lambda>k. timedelta_seconds 1000 + int k),
            db_instance_get = (\<lambda>i. if i = 1 then Inr inst_W else Inl NotFound),
            db_service_get_all_by_topic =
              (\<lambda>t. if t = ''compute'' then [svc_A, svc_B, svc_C]
                   else if t = ''network'' then [svc_A, svc_stale, svc_A]
                   else []),
            db_service_get_all_compute_by_host =
              (\<lambda>h. if h = ''A'' then Inr [svc_A]
                   else if h = ''B'' then Inr [svc_B]
                   else if h = ''C'' then Inr [svc_C]
                   else Inl NotFound),
            db_queue_get_for = (\<lambda>t h. t @ ''.'' @ h),
            db_instance_set_state = (\<lambda>i s d. None),
            db_volume_update = (\<lambda>i v. None),
            rpc_reply = (\<lambda>q m. if m = mktmpfile_msg then Inr (Str ''/instances/tmp0'')
                               else Inr NoValue)\<rparr>"

definition world0 :: world where
  "world0 = \<lparr>clock_reads = 0, events = []\<rparr>"

text \<open>The source agent does not find the probe file.\<close>

definition fleet_unshared :: env where
  "fleet_unshared =
     fleet\<lparr>rpc_reply := (\<lambda>q m. if m = mktmpfile_msg then Inr (Str ''/instances/tmp0'')
                               else if q = ''compute.A'' then Inl NotFound
                               else Inr NoValue)\<rparr>"

text \<open>The destination agent cannot create the probe file.\<close>

definition fleet_mktmpfile_fails :: env where
  "fleet_mktmpfile_fails = fleet\<lparr>rpc_reply := (\<lambda>q m. Inl RemoteError)\<rparr>"

text \<open>The instance is paused; was launched on \<open>C\<close>; has a volume.\<close>

definition fleet_paused :: env where
  "fleet_paused =
     fleet\<lparr>db_instance_get := (\<lambda>i. Inr (inst_W\<lparr>state := PAUSED\<rparr>))\<rparr>"

definition inst_from_C :: instance_row where
  "inst_from_C = inst_W\<lparr>launched_on := ''C''\<rparr>"

definition inst_with_volume :: instance_row where
  "inst_with_volume = inst_W\<lparr>volumes := [\<lparr>volume_id = 7\<rparr>]\<rparr>"

definition fleet_stale_volume :: env where
  "fleet_stale_volume =
     fleet\<lparr>db_service_get_all_by_topic :=
              (\<lambda>t. if t = ''volume'' then [svc_stale] else [])\<rparr>"

text \<open>A service whose heartbeat is older than its creation.\<close>

definition svc_backdated :: service where
  "svc_backdated = \<lparr>service_host = ''D'', created_at = timedelta_seconds 980,
            updated_at = Some (timedelta_seconds 900), compute_service = []\<rparr>"

section \<open>What the checks leave untouched\<close>

text \<open>None of the three check phases issues a repository write; the source check issues
  no remote call either.\<close>

lemma mounted_on_same_shared_storage_db_writes:
  "db_writes (snd (mounted_on_same_shared_storage e w i d)) = db_writes w"
  by (auto simp: mounted_on_same_shared_storage_def rpc_call_def db_writes_def Let_def
      split: sum.splits)

lemma src_check_db_writes:
  "db_writes (snd (live_migration_src_check e w i)) = db_writes w"
  by (auto simp: live_migration_src_check_def service_is_up_def db_writes_def Let_def
      split: sum.splits list.splits)

lemma dest_check_db_writes:
  "db_writes (snd (live_migration_dest_check e w i d)) = db_writes w"
  by (auto simp: live_migration_dest_check_def service_is_up_def db_writes_def Let_def
      split: sum.splits list.splits)

lemma common_check_db_writes:
  "db_writes (snd (live_migration_common_check e w i d)) = db_writes w"
proof -
  obtain r w1 where m: "mounted_on_same_shared_storage e w i d = (r, w1)"
    by (cases "mounted_on_same_shared_storage e w i d")
  have w1: "db_writes w1 = db_writes w"
    using mounted_on_same_shared_storage_db_writes [of e w i d] m by simp
  show ?thesis
    using m w1
    by (auto simp: live_migration_common_check_def rpc_call_def db_writes_def
        split: sum.splits)
qed

text \<open>The volume loop only appends writes to the trace.\<close>

lemma update_volumes_events:
  "\<exists>ws. events (snd (update_volumes e w vs)) = events w @ ws \<and> list_all is_write ws"
proof (induction vs arbitrary: w)
  case Nil
  show ?case by simp
next
  case (Cons v vs)
  obtain r w1 where u: "volume_update e w (volume_id v) [(''status'', ''migrating'')] = (r, w1)"
    by (cases "volume_update e w (volume_id v) [(''status'', ''migrating'')]")
  then have w1: "events w1 = events w @ [DbVolumeUpdate (volume_id v) [(''status'', ''migrating'')]]"
    by (auto simp: volume_update_def)
  show ?case
  proof (cases r)
    case (Inl x)
    with u w1 show ?thesis by simp
  next
    case (Inr y)
    from Cons.IH [of w1] obtain ws where
      "events (snd (update_volumes e w1 vs)) = events w1 @ ws" "list_all is_write ws"
      by blast
    with u w1 Inr show ?thesis by simp
  qed
qed

text \<open>The comprehension of \<open>hosts_up\<close>, closed form: the \<open>k\<close>-th service is tested
  against the \<open>k\<close>-th reading of the clock.\<close>

lemma hosts_up_loop_enumerate:
  "hosts_up_loop e w ss =
     (map (service_host \<circ> snd)
        (filter (\<lambda>(k, s). service_is_up_at (service_down_time e) (utcnow e k) s)
           (enumerate (clock_reads w) ss)),
      w\<lparr>clock_reads := clock_reads w + length ss\<rparr>)"
proof (induction ss arbitrary: w)
  case Nil
  show ?case by simp
next
  case (Cons s ss)
  show ?case
    by (simp add: Cons.IH service_is_up_def)
qed

lemma count_list_map_filter:
  "count_list (map f xs) y = length (filter (\<lambda>x. f x = y) xs)"
  by (induction xs) auto

text \<open>
  The first handler of the storage probe: a \<^verbatim>\<open>RemoteError\<close> of \<^verbatim>\<open>mktmpfile\<close> leaves the
  probe as a \<^verbatim>\<open>NameError\<close>, after the one remote call.
\<close>

lemma mktmpfile_remote_error_leaves_as_name_error:
  "rpc_reply fleet_mktmpfile_fails ''compute.B'' (Dict [(''method'', Str ''mktmpfile'')])
     = Inl RemoteError
   \<and> fst (mounted_on_same_shared_storage fleet_mktmpfile_fails world0 inst_W ''B'') = Inl NameError"
  by (simp add: mounted_on_same_shared_storage_def rpc_call_def fleet_mktmpfile_fails_def
      fleet_def inst_W_def)

section \<open>The claims\<close>

text \<open>
  C1. An instance \<open>W\<close> that is RUNNING with description "running", on host \<open>A\<close> where it
  was launched, with no volumes; a destination \<open>B\<close> other than \<open>A\<close> whose compute service
  is up, has the hypervisor type of \<open>A\<close>'s and a version not below it, has more free
  memory than \<open>W\<close> asks for, and shares storage with \<open>A\<close> (the probe file that \<open>B\<close> creates
  is confirmed by \<open>A\<close>). With \<open>A\<close>'s own compute service up, the CPU probe answered and
  the write accepted, \<open>schedule_live_migration\<close> returns \<open>A\<close>, and what it has done is:
  two clock readings, the three remote calls, and the one write that sets \<open>W\<close> to
  PAUSED with description "migrating".
\<close>

theorem schedule_live_migration_returns_source_and_pauses:
  assumes "db_instance_get e instance_id = Inr W"
    and "state W = RUNNING" and "state_description W = ''running''"
    and "instance_host W = A" and "launched_on W = A" and "volumes W = []"
    and "B \<noteq> A"
    and "db_service_get_all_compute_by_host e A = Inr (sa # sas)"
    and "compute_service sa = ca # cas"
    and "db_service_get_all_compute_by_host e B = Inr (sb # sbs)"
    and "compute_service sb = cb # cbs"
    and "service_is_up_at (service_down_time e) (utcnow e (clock_reads w)) sa"
    and "service_is_up_at (service_down_time e) (utcnow e (Suc (clock_reads w))) sb"
    and "hypervisor_type cb = hypervisor_type ca"
    and "hypervisor_version ca \<le> hypervisor_version cb"
    and "instance_memory_mb W < memory_mb cb - memory_mb_used cb"
    and "rpc_reply e (db_queue_get_for e (compute_topic e) B)
           (Dict [(''method'', Str ''mktmpfile'')]) = Inr filename"
    and "rpc_reply e (db_queue_get_for e (compute_topic e) A)
           (Dict [(''method'', Str ''confirm_tmpfile''),
                  (''args'', Dict [(''path'', filename)])]) = Inr confirmed"
    and "rpc_reply e (db_queue_get_for e (compute_topic e) B)
           (Dict [(''method'', Str ''compare_cpu''),
                  (''args'', Dict [(''cpu_info'', Str (cpu_info ca))])]) = Inr compared"
    and "db_instance_set_state e instance_id PAUSED ''migrating'' = None"
  shows "schedule_live_migration e w instance_id B =
          (Inr A,
           w\<lparr>clock_reads := Suc (Suc (clock_reads w)),
             events := events w @
               [RpcCall (db_queue_get_for e (compute_topic e) B)
                  (Dict [(''method'', Str ''mktmpfile'')]),
                RpcCall (db_queue_get_for e (compute_topic e) A)
                  (Dict [(''method'', Str ''confirm_tmpfile''),
                         (''args'', Dict [(''path'', filename)])]),
                RpcCall (db_queue_get_for e (compute_topic e) B)
                  (Dict [(''method'', Str ''compare_cpu''),
                         (''args'', Dict [(''cpu_info'', Str (cpu_info ca))])]),
                DbInstanceSetState instance_id PAUSED ''migrating'']\<rparr>)"
proof -
  have src: "live_migration_src_check e w W = (Inr (), w\<lparr>clock_reads := Suc (clock_reads w)\<rparr>)"
    using assms by (simp add: live_migration_src_check_def service_is_up_def first_def)
  have cap: "has_enough_resources e W B = Inr ()"
    using assms by (simp add: has_enough_resources_def first_def Let_def)
  have dst: "live_migration_dest_check e (w\<lparr>clock_reads := Suc (clock_reads w)\<rparr>) W B =
               (Inr (), w\<lparr>clock_reads := Suc (Suc (clock_reads w))\<rparr>)"
    using assms cap by (simp add: live_migration_dest_check_def service_is_up_def first_def)
  have sto: "mounted_on_same_shared_storage e (w\<lparr>clock_reads := Suc (Suc (clock_reads w))\<rparr>) W B =
       (Inr (), w\<lparr>clock_reads := Suc (Suc (clock_reads w)),
                  events := events w @
               [RpcCall (db_queue_get_for e (compute_topic e) B)
                  (Dict [(''method'', Str ''mktmpfile'')]),
                RpcCall (db_queue_get_for e (compute_topic e) A)
                  (Dict [(''method'', Str ''confirm_tmpfile''),
                         (''args'', Dict [(''path'', filename)])])]\<rparr>)"
    using assms by (simp add: mounted_on_same_shared_storage_def rpc_call_def)
  have com: "live_migration_common_check e (w\<lparr>clock_reads := Suc (Suc (clock_reads w))\<rparr>) W B =
       (Inr (), w\<lparr>clock_reads := Suc (Suc (clock_reads w)),
                  events := events w @
               [RpcCall (db_queue_get_for e (compute_topic e) B)
                  (Dict [(''method'', Str ''mktmpfile'')]),
                RpcCall (db_queue_get_for e (compute_topic e) A)
                  (Dict [(''method'', Str ''confirm_tmpfile''),
                         (''args'', Dict [(''path'', filename)])]),
                RpcCall (db_queue_get_for e (compute_topic e) B)
                  (Dict [(''method'', Str ''compare_cpu''),
                         (''args'', Dict [(''cpu_info'', Str (cpu_info ca))])])]\<rparr>)"
    using assms sto by (simp add: live_migration_common_check_def rpc_call_def first_def)
  show ?thesis
    using assms(1,4,6,20) src dst com
    by (simp add: schedule_live_migration_def instance_set_state_def)
qed

theorem schedule_live_migration_returns_source_and_pauses_witness:
  "schedule_live_migration fleet world0 1 ''B'' =
     (Inr ''A'',
      \<lparr>clock_reads = 2,
       events =
         [RpcCall ''compute.B'' (Dict [(''method'', Str ''mktmpfile'')]),
          RpcCall ''compute.A''
            (Dict [(''method'', Str ''confirm_tmpfile''),
                   (''args'', Dict [(''path'', Str ''/instances/tmp0'')])]),
          RpcCall ''compute.B''
            (Dict [(''method'', Str ''compare_cpu''),
                   (''args'', Dict [(''cpu_info'', Str ''cpu-a'')])]),
          DbInstanceSetState 1 PAUSED ''migrating'']\<rparr>)"
proof -
  have up_a: "service_is_up_at (service_down_time fleet) (utcnow fleet (clock_reads world0)) svc_A"
    by (simp add: fleet_def world0_def svc_A_def service_is_up_at_def last_heartbeat_def
        timedelta_seconds_def)
  have up_b: "service_is_up_at (service_down_time fleet) (utcnow fleet (Suc (clock_reads world0))) svc_B"
    by (simp add: fleet_def world0_def svc_B_def service_is_up_at_def last_heartbeat_def
        timedelta_seconds_def)
  have "schedule_live_migration fleet world0 1 ''B'' =
          (Inr ''A'',
           world0\<lparr>clock_reads := Suc (Suc (clock_reads world0)),
             events := events world0 @
               [RpcCall (db_queue_get_for fleet (compute_topic fleet) ''B'')
                  (Dict [(''method'', Str ''mktmpfile'')]),
                RpcCall (db_queue_get_for fleet (compute_topic fleet) ''A'')
                  (Dict [(''method'', Str ''confirm_tmpfile''),
                         (''args'', Dict [(''path'', Str ''/instances/tmp0'')])]),
                RpcCall (db_queue_get_for fleet (compute_topic fleet) ''B'')
                  (Dict [(''method'', Str ''compare_cpu''),
                         (''args'', Dict [(''cpu_info'', Str (cpu_info node_A))])]),
                DbInstanceSetState 1 PAUSED ''migrating'']\<rparr>)"
  proof (rule schedule_live_migration_returns_source_and_pauses
        [where W = inst_W and sa = svc_A and sas = "[]" and cas = "[]"
        and sb = svc_B and sbs = "[]" and cb = node_B and cbs = "[]"
        and confirmed = NoValue and compared = NoValue])
    show "db_instance_get fleet 1 = Inr inst_W" by (simp add: fleet_def)
    show "state inst_W = RUNNING" by (simp add: inst_W_def)
    show "state_description inst_W = ''running''" by (simp add: inst_W_def)
    show "instance_host inst_W = ''A''" by (simp add: inst_W_def)
    show "launched_on inst_W = ''A''" by (simp add: inst_W_def)
    show "volumes inst_W = []" by (simp add: inst_W_def)
    show "''B'' \<noteq> ''A''" by simp
    show "db_service_get_all_compute_by_host fleet ''A'' = Inr [svc_A]" by (simp add: fleet_def)
    show "compute_service svc_A = [node_A]" by (simp add: svc_A_def)
    show "db_service_get_all_compute_by_host fleet ''B'' = Inr [svc_B]" by (simp add: fleet_def)
    show "compute_service svc_B = [node_B]" by (simp add: svc_B_def)
    show "service_is_up_at (service_down_time fleet) (utcnow fleet (clock_reads world0)) svc_A"
      by (rule up_a)
    show "service_is_up_at (service_down_time fleet) (utcnow fleet (Suc (clock_reads world0))) svc_B"
      by (rule up_b)
    show "hypervisor_type node_B = hypervisor_type node_A" by (simp add: node_A_def node_B_def)
    show "hypervisor_version node_A \<le> hypervisor_version node_B"
      by (simp add: node_A_def node_B_def)
    show "instance_memory_mb inst_W < memory_mb node_B - memory_mb_used node_B"
      by (simp add: inst_W_def node_B_def)
    show "rpc_reply fleet (db_queue_get_for fleet (compute_topic fleet) ''B'')
           (Dict [(''method'', Str ''mktmpfile'')]) = Inr (Str ''/instances/tmp0'')"
      by (simp add: fleet_def mktmpfile_msg_def)
    show "rpc_reply fleet (db_queue_get_for fleet (compute_topic fleet) ''A'')
           (Dict [(''method'', Str ''confirm_tmpfile''),
                  (''args'', Dict [(''path'', Str ''/instances/tmp0'')])]) = Inr NoValue"
      by (simp add: fleet_def mktmpfile_msg_def)
    show "rpc_reply fleet (db_queue_get_for fleet (compute_topic fleet) ''B'')
           (Dict [(''method'', Str ''compare_cpu''),
                  (''args'', Dict [(''cpu_info'', Str (cpu_info node_A))])]) = Inr NoValue"
      by (simp add: fleet_def mktmpfile_msg_def)
    show "db_instance_set_state fleet 1 PAUSED ''migrating'' = None" by (simp add: fleet_def)
  qed
  then show ?thesis
    by (simp add: fleet_def world0_def node_A_def)
qed

text \<open>
  C2. Whichever of the source check, the destination check and the common check fails,
  \<open>schedule_live_migration\<close> fails with that error, in the world the failing check
  left, and the repository writes of that world are those of the world it started in.
  Conversely, a call that has added a write has passed all three checks, in the
  order source, destination, common, and everything it did after the common check is
  a write.
\<close>

theorem schedule_live_migration_writes_only_after_checks:
  "(db_instance_get e instance_id = Inr inst \<and>
    (live_migration_src_check e w inst = (Inl x, w')
     \<or> (\<exists>w1. live_migration_src_check e w inst = (Inr (), w1) \<and>
           (live_migration_dest_check e w1 inst dest = (Inl x, w')
            \<or> (\<exists>w2. live_migration_dest_check e w1 inst dest = (Inr (), w2) \<and>
                  live_migration_common_check e w2 inst dest = (Inl x, w')))))
    \<longrightarrow> schedule_live_migration e w instance_id dest = (Inl x, w') \<and> db_writes w' = db_writes w)
   \<and>
   (db_writes (snd (schedule_live_migration e w instance_id dest)) \<noteq> db_writes w
    \<longrightarrow> (\<exists>inst w1 w2 w3 ws.
           db_instance_get e instance_id = Inr inst \<and>
           live_migration_src_check e w inst = (Inr (), w1) \<and>
           live_migration_dest_check e w1 inst dest = (Inr (), w2) \<and>
           live_migration_common_check e w2 inst dest = (Inr (), w3) \<and>
           db_writes w3 = db_writes w \<and>
           events (snd (schedule_live_migration e w instance_id dest)) = events w3 @ ws \<and>
           list_all is_write ws))"
proof (intro conjI impI)
  assume a: "db_instance_get e instance_id = Inr inst \<and>
    (live_migration_src_check e w inst = (Inl x, w')
     \<or> (\<exists>w1. live_migration_src_check e w inst = (Inr (), w1) \<and>
           (live_migration_dest_check e w1 inst dest = (Inl x, w')
            \<or> (\<exists>w2. live_migration_dest_check e w1 inst dest = (Inr (), w2) \<and>
                  live_migration_common_check e w2 inst dest = (Inl x, w')))))"
  then show "schedule_live_migration e w instance_id dest = (Inl x, w')"
    by (auto simp: schedule_live_migration_def)
  from a show "db_writes w' = db_writes w"
    using src_check_db_writes [of e w inst] dest_check_db_writes [of e _ inst dest]
      common_check_db_writes [of e _ inst dest]
    by (metis snd_conv)
next
  assume a: "db_writes (snd (schedule_live_migration e w instance_id dest)) \<noteq> db_writes w"
  show "\<exists>inst w1 w2 w3 ws.
           db_instance_get e instance_id = Inr inst \<and>
           live_migration_src_check e w inst = (Inr (), w1) \<and>
           live_migration_dest_check e w1 inst dest = (Inr (), w2) \<and>
           live_migration_common_check e w2 inst dest = (Inr (), w3) \<and>
           db_writes w3 = db_writes w \<and>
           events (snd (schedule_live_migration e w instance_id dest)) = events w3 @ ws \<and>
           list_all is_write ws"
  proof (cases "db_instance_get e instance_id")
    case (Inl x)
    with a show ?thesis by (simp add: schedule_live_migration_def)
  next
    case (Inr inst)
    obtain r1 w1 where s1: "live_migration_src_check e w inst = (r1, w1)"
      by (cases "live_migration_src_check e w inst")
    have d1: "db_writes w1 = db_writes w"
      using src_check_db_writes [of e w inst] s1 by simp
    obtain r2 w2 where s2: "live_migration_dest_check e w1 inst dest = (r2, w2)"
      by (cases "live_migration_dest_check e w1 inst dest")
    have d2: "db_writes w2 = db_writes w"
      using dest_check_db_writes [of e w1 inst dest] s2 d1 by simp
    obtain r3 w3 where s3: "live_migration_common_check e w2 inst dest = (r3, w3)"
      by (cases "live_migration_common_check e w2 inst dest")
    have d3: "db_writes w3 = db_writes w"
      using common_check_db_writes [of e w2 inst dest] s3 d2 by simp
    have r1: "r1 = Inr ()"
      using a Inr s1 d1 by (cases r1) (auto simp: schedule_live_migration_def)
    have r2: "r2 = Inr ()"
      using a Inr s1 r1 s2 d2 by (cases r2) (auto simp: schedule_live_migration_def)
    have r3: "r3 = Inr ()"
      using a Inr s1 r1 s2 r2 s3 d3 by (cases r3) (auto simp: schedule_live_migration_def)
    obtain r4 w4 where s4: "instance_set_state e w3 instance_id PAUSED ''migrating'' = (r4, w4)"
      by (cases "instance_set_state e w3 instance_id PAUSED ''migrating''")
    then have e4: "events w4 = events w3 @ [DbInstanceSetState instance_id PAUSED ''migrating'']"
      by (auto simp: instance_set_state_def)
    from update_volumes_events [of e w4 "volumes inst"] obtain vs where
      e5: "events (snd (update_volumes e w4 (volumes inst))) = events w4 @ vs" "list_all is_write vs"
      by blast
    have "\<exists>ws. events (snd (schedule_live_migration e w instance_id dest)) = events w3 @ ws \<and>
           list_all is_write ws"
    proof (cases r4)
      case (Inl y)
      with Inr s1 r1 s2 r2 s3 r3 s4 e4 show ?thesis
        by (simp add: schedule_live_migration_def)
    next
      case r4: (Inr y)
      obtain r5 w5 where s5: "update_volumes e w4 (volumes inst) = (r5, w5)"
        by (cases "update_volumes e w4 (volumes inst)")
      with e5 e4 have "events w5 = events w3 @ (DbInstanceSetState instance_id PAUSED ''migrating'' # vs)"
        by simp
      moreover have "list_all is_write (DbInstanceSetState instance_id PAUSED ''migrating'' # vs)"
        using e5 by simp
      ultimately show ?thesis
        using Inr s1 r1 s2 r2 s3 r3 s4 r4 s5
        by (cases r5) (auto simp: schedule_live_migration_def)
    qed
    with Inr s1 r1 s2 r2 s3 r3 d3 show ?thesis by blast
  qed
qed

text \<open>The storage probe finds nothing shared: the call fails and nothing was written.\<close>

theorem schedule_live_migration_writes_only_after_checks_witness:
  "schedule_live_migration fleet_unshared world0 1 ''B'' =
     (Inl NotFound,
      snd (live_migration_common_check fleet_unshared (world0\<lparr>clock_reads := 2\<rparr>) inst_W ''B''))
   \<and> db_writes (snd (schedule_live_migration fleet_unshared world0 1 ''B'')) = []"
proof -
  have g: "db_instance_get fleet_unshared 1 = Inr inst_W"
    by (simp add: fleet_unshared_def fleet_def)
  have s: "live_migration_src_check fleet_unshared world0 inst_W = (Inr (), world0\<lparr>clock_reads := 1\<rparr>)"
    by (simp add: live_migration_src_check_def service_is_up_def fleet_unshared_def fleet_def
        world0_def inst_W_def svc_A_def first_def service_is_up_at_def last_heartbeat_def
        timedelta_seconds_def)
  have d: "live_migration_dest_check fleet_unshared (world0\<lparr>clock_reads := 1\<rparr>) inst_W ''B''
             = (Inr (), world0\<lparr>clock_reads := 2\<rparr>)"
    by (simp add: live_migration_dest_check_def has_enough_resources_def service_is_up_def
        fleet_unshared_def fleet_def world0_def inst_W_def svc_B_def node_B_def first_def
        service_is_up_at_def last_heartbeat_def timedelta_seconds_def)
  have c: "live_migration_common_check fleet_unshared (world0\<lparr>clock_reads := 2\<rparr>) inst_W ''B''
             = (Inl NotFound,
                snd (live_migration_common_check fleet_unshared (world0\<lparr>clock_reads := 2\<rparr>) inst_W ''B''))"
    by (simp add: live_migration_common_check_def mounted_on_same_shared_storage_def
        rpc_call_def fleet_unshared_def fleet_def inst_W_def mktmpfile_msg_def)
  have w: "db_writes world0 = []"
    by (simp add: db_writes_def world0_def)
  show ?thesis
    using schedule_live_migration_writes_only_after_checks
        [of fleet_unshared 1 inst_W world0 NotFound
        "snd (live_migration_common_check fleet_unshared (world0\<lparr>clock_reads := 2\<rparr>) inst_W ''B'')"
        "''B''"]
      g s d c w
    by auto
qed

text \<open>
  C3, as amended. Once the destination agent has created the probe file, an exception of
  the \<^verbatim>\<open>confirm_tmpfile\<close> call to the source agent leaves the probe unchanged: a
  \<^verbatim>\<open>NotFound\<close> as \<^verbatim>\<open>NotFound\<close>, which is neither \<^verbatim>\<open>RemoteError\<close> nor \<^verbatim>\<open>Invalid\<close>.
\<close>

theorem shared_storage_probe_reraises_confirm_error:
  assumes "rpc_reply e (db_queue_get_for e (compute_topic e) dest)
             (Dict [(''method'', Str ''mktmpfile'')]) = Inr filename"
    and "rpc_reply e (db_queue_get_for e (compute_topic e) (instance_host inst))
             (Dict [(''method'', Str ''confirm_tmpfile''),
                    (''args'', Dict [(''path'', filename)])]) = Inl x"
  shows "fst (mounted_on_same_shared_storage e w inst dest) = Inl x
         \<and> (x = NotFound \<longrightarrow>
              fst (mounted_on_same_shared_storage e w inst dest) \<noteq> Inl RemoteError
              \<and> fst (mounted_on_same_shared_storage e w inst dest) \<noteq> Inl Invalid)"
  using assms by (simp add: mounted_on_same_shared_storage_def rpc_call_def)

theorem shared_storage_probe_reraises_confirm_error_witness:
  "fst (mounted_on_same_shared_storage fleet_unshared world0 inst_W ''B'') = Inl NotFound"
proof -
  have m: "rpc_reply fleet_unshared
             (db_queue_get_for fleet_unshared (compute_topic fleet_unshared) ''B'')
             (Dict [(''method'', Str ''mktmpfile'')]) = Inr (Str ''/instances/tmp0'')"
    by (simp add: fleet_unshared_def fleet_def mktmpfile_msg_def)
  have c: "rpc_reply fleet_unshared
             (db_queue_get_for fleet_unshared (compute_topic fleet_unshared) (instance_host inst_W))
             (Dict [(''method'', Str ''confirm_tmpfile''),
                    (''args'', Dict [(''path'', Str ''/instances/tmp0'')])]) = Inl NotFound"
    by (simp add: fleet_unshared_def fleet_def mktmpfile_msg_def inst_W_def)
  show ?thesis
    using shared_storage_probe_reraises_confirm_error [OF m c, of world0] by simp
qed

text \<open>
  C3 as it was stated fails: the source agent answers \<^verbatim>\<open>confirm_tmpfile\<close> with
  \<^verbatim>\<open>NotFound\<close>, and the probe fails with \<^verbatim>\<open>NotFound\<close>, not with \<^verbatim>\<open>Invalid\<close>.
\<close>

theorem shared_storage_probe_not_found_is_not_invalid:
  "rpc_reply fleet_unshared ''compute.A''
     (Dict [(''method'', Str ''confirm_tmpfile''),
            (''args'', Dict [(''path'', Str ''/instances/tmp0'')])]) = Inl NotFound
   \<and> fst (mounted_on_same_shared_storage fleet_unshared world0 inst_W ''B'') = Inl NotFound
   \<and> fst (mounted_on_same_shared_storage fleet_unshared world0 inst_W ''B'') \<noteq> Inl Invalid"
  by (simp add: mounted_on_same_shared_storage_def rpc_call_def fleet_unshared_def fleet_def
      inst_W_def mktmpfile_msg_def)

text \<open>
  C4. Where the destination has a compute service with a compute node, the capacity check
  takes \<open>memory_mb - memory_mb_used\<close> of that node and raises \<^verbatim>\<open>NotEmpty\<close> exactly
  when this is at most the instance's \<open>memory_mb\<close>: equal fails, one more passes. And
  \<^verbatim>\<open>NotEmpty\<close> is not \<^verbatim>\<open>Invalid\<close>.
\<close>

theorem has_enough_resources_strict:
  assumes "db_service_get_all_compute_by_host e dest = Inr (service_ref # others)"
    and "compute_service service_ref = node # nodes"
  shows "has_enough_resources e inst dest =
           (if memory_mb node - memory_mb_used node \<le> instance_memory_mb inst
            then Inl NotEmpty else Inr ())
         \<and> (memory_mb node - memory_mb_used node = instance_memory_mb inst
              \<longrightarrow> has_enough_resources e inst dest = Inl NotEmpty)
         \<and> (memory_mb node - memory_mb_used node = instance_memory_mb inst + 1
              \<longrightarrow> has_enough_resources e inst dest = Inr ())
         \<and> Inl NotEmpty \<noteq> (Inl Invalid :: exn + unit)"
  using assms by (simp add: has_enough_resources_def first_def Let_def)

text \<open>Host \<open>B\<close> has 1024 MB free: an instance of 1024 MB is refused, one of 1023 MB fits.\<close>

theorem has_enough_resources_strict_witness:
  "has_enough_resources fleet (inst_W\<lparr>instance_memory_mb := 1024\<rparr>) ''B'' = Inl NotEmpty \<and>
   has_enough_resources fleet (inst_W\<lparr>instance_memory_mb := 1023\<rparr>) ''B'' = Inr ()"
proof -
  have g: "db_service_get_all_compute_by_host fleet ''B'' = Inr (svc_B # [])"
    by (simp add: fleet_def)
  have n: "compute_service svc_B = node_B # []"
    by (simp add: svc_B_def)
  show ?thesis
    using has_enough_resources_strict [OF g n, of "inst_W\<lparr>instance_memory_mb := 1024\<rparr>"]
      has_enough_resources_strict [OF g n, of "inst_W\<lparr>instance_memory_mb := 1023\<rparr>"]
    by (simp add: node_B_def)
qed

text \<open>
  C5. After the storage probe has passed, the common check reads the hypervisor of the
  host the instance was launched on (the lookup is at \<open>launched_on\<close>; the current host
  is not looked up) and of the destination: different type strings fail \<^verbatim>\<open>Invalid\<close>;
  equal types with the launch host's version above the destination's fail
  \<^verbatim>\<open>Invalid\<close>; equal types with the launch host's version at most the destination's go
  on to the \<^verbatim>\<open>compare_cpu\<close> call, whose outcome is then the outcome of the check.
\<close>

theorem common_check_compares_launch_host:
  assumes "mounted_on_same_shared_storage e w inst dest = (Inr (), w1)"
    and "db_service_get_all_compute_by_host e dest = Inr (dservice # dothers)"
    and "compute_service dservice = d # ds"
    and "db_service_get_all_compute_by_host e (launched_on inst) = Inr (oservice # oothers)"
    and "compute_service oservice = o' # os"
  shows "(hypervisor_type o' \<noteq> hypervisor_type d
            \<longrightarrow> live_migration_common_check e w inst dest = (Inl Invalid, w1))
       \<and> (hypervisor_type o' = hypervisor_type d \<and> hypervisor_version d < hypervisor_version o'
            \<longrightarrow> live_migration_common_check e w inst dest = (Inl Invalid, w1))
       \<and> (hypervisor_type o' = hypervisor_type d \<and> hypervisor_version o' \<le> hypervisor_version d
            \<longrightarrow> live_migration_common_check e w inst dest =
                 (case rpc_call e w1 (db_queue_get_for e (compute_topic e) dest)
                         (Dict [(''method'', Str ''compare_cpu''),
                                (''args'', Dict [(''cpu_info'', Str (cpu_info o'))])]) of
                    (Inl x, w2) \<Rightarrow> (Inl x, w2)
                  | (Inr r, w2) \<Rightarrow> (Inr (), w2)))"
  using assms by (simp add: live_migration_common_check_def first_def)

text \<open>
  An instance now on \<open>A\<close> (kvm, like \<open>B\<close>) that was launched on \<open>C\<close> (xen) is refused for
  \<open>B\<close>; the same instance launched on \<open>A\<close> passes.
\<close>

theorem common_check_compares_launch_host_witness:
  "fst (live_migration_common_check fleet world0 inst_from_C ''B'') = Inl Invalid
   \<and> fst (live_migration_common_check fleet world0 inst_W ''B'') = Inr ()"
proof -
  have m: "mounted_on_same_shared_storage fleet world0 inst_from_C ''B'' =
            (Inr (), snd (mounted_on_same_shared_storage fleet world0 inst_from_C ''B''))"
    by (simp add: mounted_on_same_shared_storage_def rpc_call_def fleet_def inst_from_C_def
        inst_W_def mktmpfile_msg_def)
  have m': "mounted_on_same_shared_storage fleet world0 inst_W ''B'' =
            (Inr (), snd (mounted_on_same_shared_storage fleet world0 inst_W ''B''))"
    by (simp add: mounted_on_same_shared_storage_def rpc_call_def fleet_def
        inst_W_def mktmpfile_msg_def)
  have d: "db_service_get_all_compute_by_host fleet ''B'' = Inr (svc_B # [])"
    by (simp add: fleet_def)
  have dn: "compute_service svc_B = node_B # []"
    by (simp add: svc_B_def)
  have o: "db_service_get_all_compute_by_host fleet (launched_on inst_from_C) = Inr (svc_C # [])"
    by (simp add: fleet_def inst_from_C_def)
  have on: "compute_service svc_C = node_C # []"
    by (simp add: svc_C_def)
  have o': "db_service_get_all_compute_by_host fleet (launched_on inst_W) = Inr (svc_A # [])"
    by (simp add: fleet_def inst_W_def)
  have on': "compute_service svc_A = node_A # []"
    by (simp add: svc_A_def)
  show ?thesis
    using common_check_compares_launch_host [OF m d dn o on]
      common_check_compares_launch_host [OF m' d dn o' on']
    by (simp add: node_A_def node_B_def node_C_def rpc_call_def fleet_def mktmpfile_msg_def)
qed

text \<open>
  C6. For an instance with attached volumes, the source check fails \<^verbatim>\<open>Invalid\<close> when
  no service of topic "volume" is up at the reading of the clock the check makes. For an
  instance with no volumes the services of any topic play no part: the check gives the
  same result whatever the repository would list.
\<close>

theorem src_check_volume_service:
  "(volumes inst \<noteq> [] \<and>
    (\<forall>s \<in> set (db_service_get_all_by_topic e ''volume'').
        \<not> service_is_up_at (service_down_time e) (utcnow e (clock_reads w)) s)
    \<longrightarrow> fst (live_migration_src_check e w inst) = Inl Invalid)
   \<and> (volumes inst = []
    \<longrightarrow> live_migration_src_check (e\<lparr>db_service_get_all_by_topic := f\<rparr>) w inst
        = live_migration_src_check e w inst)"
  by (auto simp: live_migration_src_check_def service_is_up_def split: list.splits sum.splits)

text \<open>
  The only volume service is stale: the instance with a volume is refused, the instance
  without one passes as it does in the fleet that lists no volume service.
\<close>

theorem src_check_volume_service_witness:
  "fst (live_migration_src_check fleet_stale_volume world0 inst_with_volume) = Inl Invalid
   \<and> live_migration_src_check fleet_stale_volume world0 inst_W
       = live_migration_src_check fleet world0 inst_W
   \<and> fst (live_migration_src_check fleet world0 inst_W) = Inr ()"
proof -
  have v: "volumes inst_with_volume \<noteq> [] \<and>
    (\<forall>s \<in> set (db_service_get_all_by_topic fleet_stale_volume ''volume'').
        \<not> service_is_up_at (service_down_time fleet_stale_volume)
             (utcnow fleet_stale_volume (clock_reads world0)) s)"
    by (simp add: inst_with_volume_def fleet_stale_volume_def fleet_def svc_stale_def
        service_is_up_at_def last_heartbeat_def timedelta_seconds_def world0_def)
  have n: "volumes inst_W = []"
    by (simp add: inst_W_def)
  have ok: "fst (live_migration_src_check fleet world0 inst_W) = Inr ()"
    by (simp add: live_migration_src_check_def service_is_up_def fleet_def world0_def
        inst_W_def svc_A_def first_def service_is_up_at_def last_heartbeat_def
        timedelta_seconds_def)
  show ?thesis
    using src_check_volume_service [of inst_with_volume fleet_stale_volume world0
        "\<lambda>t. if t = ''volume'' then [svc_stale] else []"]
      src_check_volume_service [of inst_W fleet world0
        "\<lambda>t. if t = ''volume'' then [svc_stale] else []"]
      v n ok
    by (simp add: fleet_stale_volume_def)
qed

text \<open>
  C7, as amended. For a service whose \<^verbatim>\<open>updated_at\<close> is absent or not earlier than its
  \<^verbatim>\<open>created_at\<close>, \<open>service_is_up\<close> is true exactly when the time since the later of the
  two timestamps is below the threshold.
\<close>

theorem service_is_up_is_liveness_unless_backdated:
  "(case updated_at s of None \<Rightarrow> True | Some u \<Rightarrow> created_at s \<le> u) \<Longrightarrow>
   fst (service_is_up e w s) =
     liveness_by_later_timestamp (service_down_time e) (utcnow e (clock_reads w)) s"
  by (simp add: service_is_up_def service_is_up_at_def last_heartbeat_def
      liveness_by_later_timestamp_def later_timestamp_def max_def split: option.splits)

theorem service_is_up_is_liveness_unless_backdated_witness:
  "fst (service_is_up fleet world0 svc_A)
   \<and> liveness_by_later_timestamp (service_down_time fleet) (utcnow fleet (clock_reads world0)) svc_A"
proof -
  have h: "case updated_at svc_A of None \<Rightarrow> True | Some u \<Rightarrow> created_at svc_A \<le> u"
    by (simp add: svc_A_def timedelta_seconds_def)
  show ?thesis
    using service_is_up_is_liveness_unless_backdated [OF h, of fleet world0]
    by (simp add: liveness_by_later_timestamp_def later_timestamp_def svc_A_def fleet_def
      world0_def timedelta_seconds_def)
qed

text \<open>
  C7 as it was stated fails: a service created at second 980 whose \<^verbatim>\<open>updated_at\<close> says
  second 900 is, at second 1000 with a threshold of 60, down for \<open>service_is_up\<close> (100
  seconds since \<^verbatim>\<open>updated_at\<close>) and live by the later timestamp (20 seconds since
  \<^verbatim>\<open>created_at\<close>).
\<close>

theorem service_is_up_differs_from_later_timestamp:
  "\<not> fst (service_is_up fleet world0 svc_backdated)
   \<and> liveness_by_later_timestamp (service_down_time fleet) (utcnow fleet (clock_reads world0))
       svc_backdated"
  by (simp add: service_is_up_def service_is_up_at_def last_heartbeat_def
      liveness_by_later_timestamp_def later_timestamp_def svc_backdated_def fleet_def
      world0_def timedelta_seconds_def)

text \<open>
  C8. With the heartbeat time taken as \<^verbatim>\<open>updated_at\<close> if present and \<^verbatim>\<open>created_at\<close>
  otherwise, \<open>service_is_up\<close> is true exactly when the age of the heartbeat at the
  reading of the clock is below the threshold; at an age equal to the threshold it is
  false.
\<close>

theorem service_is_up_iff_age_below_threshold:
  "fst (service_is_up e w s) =
     (utcnow e (clock_reads w) - (case updated_at s of Some u \<Rightarrow> u | None \<Rightarrow> created_at s)
        < timedelta_seconds (service_down_time e))
   \<and> (utcnow e (clock_reads w) - (case updated_at s of Some u \<Rightarrow> u | None \<Rightarrow> created_at s)
        = timedelta_seconds (service_down_time e) \<longrightarrow> \<not> fst (service_is_up e w s))"
  by (simp add: service_is_up_def service_is_up_at_def last_heartbeat_def)

text \<open>
  The heartbeat of \<open>A\<close> is at second 990 and the threshold is 60: up at second 1000, down
  at second 1050, up one microsecond before that.
\<close>

theorem service_is_up_iff_age_below_threshold_witness:
  "fst (service_is_up fleet world0 svc_A)
   \<and> \<not> fst (service_is_up (fleet\<lparr>utcnow := (\<lambda>k. timedelta_seconds 1050)\<rparr>) world0 svc_A)
   \<and> fst (service_is_up (fleet\<lparr>utcnow := (\<lambda>k. timedelta_seconds 1050 - 1)\<rparr>) world0 svc_A)"
  using service_is_up_iff_age_below_threshold [of fleet world0 svc_A]
    service_is_up_iff_age_below_threshold
      [of "fleet\<lparr>utcnow := (\<lambda>k. timedelta_seconds 1050)\<rparr>" world0 svc_A]
    service_is_up_iff_age_below_threshold
      [of "fleet\<lparr>utcnow := (\<lambda>k. timedelta_seconds 1050 - 1)\<rparr>" world0 svc_A]
  by (simp add: svc_A_def fleet_def world0_def timedelta_seconds_def)

text \<open>
  C9. For an instance that is not RUNNING, or whose description is not "running",
  \<open>schedule_live_migration\<close> fails \<^verbatim>\<open>Invalid\<close> in the world it started in: no remote
  call has been added to the trace (nor anything else).
\<close>

theorem not_running_fails_before_any_rpc:
  "db_instance_get e instance_id = Inr inst \<Longrightarrow>
   state inst \<noteq> RUNNING \<or> state_description inst \<noteq> ''running'' \<Longrightarrow>
   schedule_live_migration e w instance_id dest = (Inl Invalid, w) \<and>
   rpc_calls (snd (schedule_live_migration e w instance_id dest)) = rpc_calls w"
  by (auto simp: schedule_live_migration_def live_migration_src_check_def)

theorem not_running_fails_before_any_rpc_witness:
  "schedule_live_migration fleet_paused world0 1 ''B'' = (Inl Invalid, world0) \<and>
   rpc_calls (snd (schedule_live_migration fleet_paused world0 1 ''B'')) = []"
proof -
  have g: "db_instance_get fleet_paused 1 = Inr (inst_W\<lparr>state := PAUSED\<rparr>)"
    by (simp add: fleet_paused_def fleet_def)
  have s: "state (inst_W\<lparr>state := PAUSED\<rparr>) \<noteq> RUNNING
           \<or> state_description (inst_W\<lparr>state := PAUSED\<rparr>) \<noteq> ''running''"
    by simp
  show ?thesis
    using not_running_fails_before_any_rpc [OF g s, of world0 "''B''"]
    by (simp add: rpc_calls_def world0_def)
qed

text \<open>
  C10. \<open>hosts_up\<close> returns the hosts of the services the repository lists for the topic
  that are up (each at its own reading of the clock), in the repository's order, one
  entry for each such service: a host is in the result as many times as it has live
  services in the list.
\<close>

theorem hosts_up_one_entry_per_live_service:
  "fst (hosts_up e w topic) =
     map (service_host \<circ> snd)
       (filter (\<lambda>(k, s). service_is_up_at (service_down_time e) (utcnow e k) s)
          (enumerate (clock_reads w) (db_service_get_all_by_topic e topic)))
   \<and> count_list (fst (hosts_up e w topic)) h =
     length (filter (\<lambda>(k, s). service_is_up_at (service_down_time e) (utcnow e k) s
                              \<and> service_host s = h)
          (enumerate (clock_reads w) (db_service_get_all_by_topic e topic)))"
  by (simp add: hosts_up_def Let_def hosts_up_loop_enumerate count_list_map_filter
      case_prod_unfold)

text \<open>Host \<open>A\<close> has two live services under "network", around a stale one.\<close>

theorem hosts_up_one_entry_per_live_service_witness:
  "fst (hosts_up fleet world0 ''network'') = [''A'', ''A'']
   \<and> count_list (fst (hosts_up fleet world0 ''network'')) ''A'' = 2"
  using hosts_up_one_entry_per_live_service [of fleet world0 "''network''" "''A''"]
  by (simp add: fleet_def world0_def svc_A_def svc_stale_def service_is_up_at_def
      last_heartbeat_def timedelta_seconds_def enumerate_eq_zip upt_rec)

end
